theory Spec2Isabelle
  imports Complex_Main
begin

section \<open>Numbers and values of the Python program\<close>

text \<open>
  \<^verbatim>\<open>holopy/inference/noise_model.py\<close> computes with Python and numpy floats. A float is a
  finite number or one of the three special values of IEEE arithmetic: the two infinities
  (\<^verbatim>\<open>-np.inf\<close> is the reject sentinel of this module) and the not-a-number that
  \<^verbatim>\<open>inf - inf\<close>, \<^verbatim>\<open>0 * inf\<close>, \<^verbatim>\<open>0 / 0\<close> and \<^verbatim>\<open>inf / inf\<close> give.
\<close>

datatype fl = Fin real | PInf | NInf | NaN

text \<open>
  What an operation makes of finite operands depends on the float format, and the format
  is a parameter of everything below:
  \<^item> \<open>repr F x\<close>: the real \<open>x\<close> is a number of the format;
  \<^item> \<open>rnd F x\<close>: the float an operation returns when its exact result is \<open>x\<close> (a
    neighbouring number of the format, an infinity on overflow, zero on underflow);
  \<^item> \<open>rlog F x\<close>: the library's \<^verbatim>\<open>np.log\<close> of a positive finite \<open>x\<close>;
  \<^item> \<open>np_pi F\<close>: the constant \<^verbatim>\<open>np.pi\<close>;
  \<^item> \<open>asum F xs\<close>: numpy's reduction of an array by addition (\<^verbatim>\<open>ndarray.sum()\<close>, also
    inside \<^verbatim>\<open>np.mean\<close>), whose order of additions is numpy's own.
  The rules for the special values are those of IEEE arithmetic and the same in every
  format. The sign of zero is not modelled: zero is \<^verbatim>\<open>+0.0\<close>, the only zero a square (the
  divisor in this program) can be. A Python \<^verbatim>\<open>int\<close> that meets a float (the element count
  \<^verbatim>\<open>N\<close>) is taken to convert exactly.
\<close>

record float_format =
  repr :: "real \<Rightarrow> bool"
  rnd :: "real \<Rightarrow> fl"
  rlog :: "real \<Rightarrow> fl"
  np_pi :: real
  asum :: "fl list \<Rightarrow> fl"

fun fl_neg :: "fl \<Rightarrow> fl" where
  "fl_neg (Fin x) = Fin (- x)"
| "fl_neg PInf = NInf"
| "fl_neg NInf = PInf"
| "fl_neg NaN = NaN"

fun fl_add :: "float_format \<Rightarrow> fl \<Rightarrow> fl \<Rightarrow> fl" where
  "fl_add F (Fin x) (Fin y) = rnd F (x + y)"
| "fl_add F (Fin x) PInf = PInf"
| "fl_add F (Fin x) NInf = NInf"
| "fl_add F PInf (Fin y) = PInf"
| "fl_add F PInf PInf = PInf"
| "fl_add F PInf NInf = NaN"
| "fl_add F NInf (Fin y) = NInf"
| "fl_add F NInf NInf = NInf"
| "fl_add F NInf PInf = NaN"
| "fl_add F NaN y = NaN"
| "fl_add F x NaN = NaN"

definition fl_sub :: "float_format \<Rightarrow> fl \<Rightarrow> fl \<Rightarrow> fl" where
  "fl_sub F x y = fl_add F x (fl_neg y)"

text \<open>The sign of an infinite product or quotient: \<open>True\<close> is positive.\<close>

definition signed_inf :: "bool \<Rightarrow> fl" where
  "signed_inf positive = (if positive then PInf else NInf)"

fun fl_mul :: "float_format \<Rightarrow> fl \<Rightarrow> fl \<Rightarrow> fl" where
  "fl_mul F (Fin x) (Fin y) = rnd F (x * y)"
| "fl_mul F (Fin x) PInf = (if x = 0 then NaN else signed_inf (0 < x))"
| "fl_mul F (Fin x) NInf = (if x = 0 then NaN else signed_inf (x < 0))"
| "fl_mul F PInf (Fin y) = (if y = 0 then NaN else signed_inf (0 < y))"
| "fl_mul F NInf (Fin y) = (if y = 0 then NaN else signed_inf (y < 0))"
| "fl_mul F PInf PInf = PInf"
| "fl_mul F PInf NInf = NInf"
| "fl_mul F NInf PInf = NInf"
| "fl_mul F NInf NInf = PInf"
| "fl_mul F NaN y = NaN"
| "fl_mul F x NaN = NaN"

text \<open>
  numpy's float division: a nonzero number over zero is an infinity, \<^verbatim>\<open>0 / 0\<close> and
  \<^verbatim>\<open>inf / inf\<close> are not-a-number.
\<close>

fun fl_div :: "float_format \<Rightarrow> fl \<Rightarrow> fl \<Rightarrow> fl" where
  "fl_div F (Fin x) (Fin y) =
     (if y = 0 then (if x = 0 then NaN else signed_inf (0 < x)) else rnd F (x / y))"
| "fl_div F (Fin x) PInf = Fin 0"
| "fl_div F (Fin x) NInf = Fin 0"
| "fl_div F PInf (Fin y) = signed_inf (0 \<le> y)"
| "fl_div F NInf (Fin y) = signed_inf (y < 0)"
| "fl_div F PInf PInf = NaN"
| "fl_div F PInf NInf = NaN"
| "fl_div F NInf PInf = NaN"
| "fl_div F NInf NInf = NaN"
| "fl_div F NaN y = NaN"
| "fl_div F x NaN = NaN"

text \<open>\<^verbatim>\<open>x ** 2\<close>.\<close>

definition fl_sq :: "float_format \<Rightarrow> fl \<Rightarrow> fl" where
  "fl_sq F x = fl_mul F x x"

text \<open>\<^verbatim>\<open>np.log\<close>: minus infinity at zero, not-a-number below it.\<close>

fun fl_log :: "float_format \<Rightarrow> fl \<Rightarrow> fl" where
  "fl_log F (Fin x) = (if 0 < x then rlog F x else if x = 0 then NInf else NaN)"
| "fl_log F PInf = PInf"
| "fl_log F NInf = NaN"
| "fl_log F NaN = NaN"

text \<open>\<^verbatim>\<open>x < y\<close> on floats: every comparison with not-a-number is false.\<close>

fun fl_less :: "fl \<Rightarrow> fl \<Rightarrow> bool" where
  "fl_less (Fin x) (Fin y) = (x < y)"
| "fl_less (Fin x) PInf = True"
| "fl_less NInf (Fin y) = True"
| "fl_less NInf PInf = True"
| "fl_less x y = False"

text \<open>
  Python's \<^verbatim>\<open>sum(xs)\<close> starts from the integer \<^verbatim>\<open>0\<close> and adds the items from the left.
\<close>

definition py_sum :: "float_format \<Rightarrow> fl list \<Rightarrow> fl" where
  "py_sum F xs = foldl (fl_add F) (Fin 0) xs"

text \<open>A finite float.\<close>

fun is_fin :: "fl \<Rightarrow> bool" where
  "is_fin (Fin x) = True"
| "is_fin PInf = False"
| "is_fin NInf = False"
| "is_fin NaN = False"

text \<open>
  What the theorems on the likelihood ask of a format, each a fact of IEEE arithmetic:
  zero and one are numbers of the format; an operation whose exact result is a number of
  the format returns it; a finite result is a number of the format, and not negative when
  the exact result is not; a finite logarithm is a number of the format; and the array
  sum of zeros is zero (also of none), that of infinities the infinity, that of one
  float the float.
\<close>

fun is_float :: "float_format \<Rightarrow> fl \<Rightarrow> bool" where
  "is_float F (Fin x) = repr F x"
| "is_float F PInf = True"
| "is_float F NInf = True"
| "is_float F NaN = True"

definition ieee_format :: "float_format \<Rightarrow> bool" where
  "ieee_format F \<longleftrightarrow>
     repr F 0 \<and> repr F 1 \<and>
     (\<forall>x. repr F x \<longrightarrow> rnd F x = Fin x) \<and>
     (\<forall>x y. rnd F x = Fin y \<longrightarrow> repr F y) \<and>
     (\<forall>x y. 0 \<le> x \<longrightarrow> rnd F x = Fin y \<longrightarrow> 0 \<le> y) \<and>
     (\<forall>x y. rlog F x = Fin y \<longrightarrow> repr F y) \<and>
     (\<forall>xs. list_all (\<lambda>x. x = Fin 0) xs \<longrightarrow> asum F xs = Fin 0) \<and>
     (\<forall>xs. xs \<noteq> [] \<longrightarrow> list_all (\<lambda>x. x = PInf) xs \<longrightarrow> asum F xs = PInf) \<and>
     (\<forall>x. is_float F x \<longrightarrow> asum F [x] = x)"

text \<open>
  The values a parameter dictionary or sequence holds: a float, an array of floats, or a
  string (iterating a \<^verbatim>\<open>dict\<close> yields its keys, which are parameter names).
\<close>

datatype pyval = Num fl | Str string | NdArr "fl list"

text \<open>
  \<^verbatim>\<open>par_vals\<close> is either a \<^verbatim>\<open>dict\<close> keyed by parameter name (its items in insertion order,
  keys distinct) or a positional sequence.
\<close>

datatype par_vals = Dict "(string \<times> pyval) list" | Seq "pyval list"

text \<open>What \<^verbatim>\<open>zip(..., vals)\<close> iterates over: the keys of a \<^verbatim>\<open>dict\<close>, the items of a sequence.\<close>

fun py_iter :: "par_vals \<Rightarrow> pyval list" where
  "py_iter (Dict kvs) = map (\<lambda>kv. Str (fst kv)) kvs"
| "py_iter (Seq vs) = vs"

datatype exn =
    MultisphereFailure
  | InvalidScatterer
  | KeyError string
  | ValueError
  | OtherError string

section \<open>The collaborators of the model\<close>

text \<open>
  A parameter has a name and a prior density; a constraint is a predicate on a
  materialised scatterer; the scatterer template materialises a scatterer (of a type
  \<open>'s\<close> this module never looks into) from a name-to-value dictionary.
\<close>

record parameter =
  name :: string
  lnprob :: "pyval \<Rightarrow> fl"

record 's constraint =
  check :: "'s \<Rightarrow> bool"

type_synonym pars = "string \<rightharpoonup> pyval"

record 's scatterer_template =
  make_from :: "pars \<Rightarrow> 's"

text \<open>
  The fields of a \<^verbatim>\<open>NoiseModel\<close> that the methods below read: \<^verbatim>\<open>self.scatterer\<close>,
  \<^verbatim>\<open>self.parameters\<close>, \<^verbatim>\<open>self.constraints\<close> and \<^verbatim>\<open>self.theory\<close>.
\<close>

record 's noise_model =
  scatterer :: "'s scatterer_template"
  parameters :: "parameter list"
  constraints :: "'s constraint list"
  theory_sel :: string

section \<open>NoiseModel: packing and the prior\<close>

text \<open>
  \<^verbatim>\<open>def _pack(self, vals):
      return {par.name: val for par, val in zip(self.parameters, vals)}\<close>
  The comprehension stores the pairs from the left, a later pair overwriting an earlier
  one of the same name; \<^verbatim>\<open>zip\<close> stops at the shorter of the two. (A leading underscore
  of the source is written \<open>u_\<close>.)
\<close>

definition u_pack :: "'s noise_model \<Rightarrow> par_vals \<Rightarrow> pars" where
  "u_pack self vals =
     foldl (\<lambda>d pv. d(name (fst pv) \<mapsto> snd pv)) Map.empty (zip (parameters self) (py_iter vals))"

text \<open>
  \<^verbatim>\<open>for constraint in self.constraints:
      if not constraint.check(self.scatterer.make_from(self._pack(par_vals))):
          return -np.inf\<close>
  \<open>Some NInf\<close> is the early return, \<open>None\<close> a loop that ran to its end.
\<close>

fun constraint_loop :: "'s noise_model \<Rightarrow> par_vals \<Rightarrow> 's constraint list \<Rightarrow> fl option" where
  "constraint_loop self par_vals [] = None"
| "constraint_loop self par_vals (c # cs) =
     (if \<not> check c (make_from (scatterer self) (u_pack self par_vals)) then Some NInf
      else constraint_loop self par_vals cs)"

text \<open>
  \<^verbatim>\<open>[p.lnprob(par_vals[p.name]) for p in self.parameters]\<close>: a name that is not a key raises
  \<^verbatim>\<open>KeyError\<close> at the first such parameter.
\<close>

fun dict_lnprobs :: "(string \<times> pyval) list \<Rightarrow> parameter list \<Rightarrow> exn + fl list" where
  "dict_lnprobs d [] = Inr []"
| "dict_lnprobs d (p # ps) =
     (case map_of d (name p) of
        None \<Rightarrow> Inl (KeyError (name p))
      | Some v \<Rightarrow>
          (case dict_lnprobs d ps of
             Inl e \<Rightarrow> Inl e
           | Inr ls \<Rightarrow> Inr (lnprob p v # ls)))"

text \<open>\<^verbatim>\<open>[p.lnprob(v) for p, v in zip(self.parameters, par_vals)]\<close>\<close>

definition seq_lnprobs :: "pyval list \<Rightarrow> parameter list \<Rightarrow> fl list" where
  "seq_lnprobs vs ps = map (\<lambda>pv. lnprob (fst pv) (snd pv)) (zip ps vs)"

definition lnprior :: "float_format \<Rightarrow> 's noise_model \<Rightarrow> par_vals \<Rightarrow> exn + fl" where
  "lnprior F self par_vals =
     (case constraint_loop self par_vals (constraints self) of
        Some r \<Rightarrow> Inr r
      | None \<Rightarrow>
          (case par_vals of
             Dict d \<Rightarrow>
               (case dict_lnprobs d (parameters self) of
                  Inl e \<Rightarrow> Inl e
                | Inr ls \<Rightarrow> Inr (py_sum F ls))
           | Seq vs \<Rightarrow> Inr (py_sum F (seq_lnprobs vs (parameters self)))))"

section \<open>Arrays\<close>

text \<open>
  The observed data is an \<^verbatim>\<open>xarray.DataArray\<close>: its values (flattened, in storage order)
  and its attached metadata. A numpy operand is a scalar or an array; an arithmetic
  operator broadcasts a scalar, or an array of one element, over the other operand, and
  raises \<^verbatim>\<open>ValueError\<close> for two arrays whose sizes do not fit.
\<close>

datatype xarray = DataArray (data_values: "fl list") (attrs: "(string \<times> pyval) list")

datatype ndarray = Scalar fl | Array "fl list"

fun broadcast :: "(fl \<Rightarrow> fl \<Rightarrow> fl) \<Rightarrow> ndarray \<Rightarrow> ndarray \<Rightarrow> exn + ndarray" where
  "broadcast f (Scalar a) (Scalar b) = Inr (Scalar (f a b))"
| "broadcast f (Scalar a) (Array ys) = Inr (Array (map (f a) ys))"
| "broadcast f (Array xs) (Scalar b) = Inr (Array (map (\<lambda>x. f x b) xs))"
| "broadcast f (Array xs) (Array ys) =
     (if length xs = length ys then Inr (Array (map (\<lambda>xy. f (fst xy) (snd xy)) (zip xs ys)))
      else if length xs = 1 then Inr (Array (map (f (hd xs)) ys))
      else if length ys = 1 then Inr (Array (map (\<lambda>x. f x (hd ys)) xs))
      else Inl ValueError)"

fun nd_map :: "(fl \<Rightarrow> fl) \<Rightarrow> ndarray \<Rightarrow> ndarray" where
  "nd_map f (Scalar a) = Scalar (f a)"
| "nd_map f (Array xs) = Array (map f xs)"

text \<open>\<^verbatim>\<open>.values.sum()\<close>\<close>

fun nd_sum :: "float_format \<Rightarrow> ndarray \<Rightarrow> fl" where
  "nd_sum F (Scalar a) = a"
| "nd_sum F (Array xs) = asum F xs"

text \<open>
  Modelled from the spec: \<^verbatim>\<open>holopy.core.utils.ensure_array\<close> is not in this file; the
  value is "coerced to an array-like form even if scalar".
\<close>

fun ensure_array :: "ndarray \<Rightarrow> fl list" where
  "ensure_array (Scalar a) = [a]"
| "ensure_array (Array xs) = xs"

text \<open>\<^verbatim>\<open>np.mean\<close>: the sum over the count, so not-a-number (\<^verbatim>\<open>0.0 / 0\<close>) on an empty array.\<close>

definition np_mean :: "float_format \<Rightarrow> fl list \<Rightarrow> fl" where
  "np_mean F xs = fl_div F (asum F xs) (Fin (real (length xs)))"

section \<open>The forward solver and the other external calls\<close>

text \<open>
  The calls that leave this module are recorded, in order, with their arguments: the two
  solver entry points and the data subsetting. A method that can make such a call returns
  its result together with the calls it made.
\<close>

type_synonym optics = "(string \<times> pyval) list"

datatype 's event =
    CalcField xarray 's string optics
  | CalcHolo xarray 's string pyval optics
  | MakeSubsetData xarray "nat list"

text \<open>
  The functions this module imports or inherits and whose bodies are elsewhere:
  \<^verbatim>\<open>calc_field(schema, scatterer, theory=..., **optics)\<close> and
  \<^verbatim>\<open>calc_holo(schema, scatterer, theory=..., scaling=..., **optics)\<close>, which may raise;
  \<^verbatim>\<open>make_subset_data(data, pixels=...)\<close>; \<^verbatim>\<open>dict_to_array(data, value)\<close>; and the
  \<^verbatim>\<open>BaseModel\<close> methods \<^verbatim>\<open>get_par(name, pars, schema)\<close>, which returns the value together
  with the dictionary as the call leaves it, and \<^verbatim>\<open>_optics_scatterer(pars, schema)\<close>.
  They are parameters of the model. Only the two solver entry points are given a way to
  raise, the one the source handles; the others, like \<^verbatim>\<open>lnprob\<close>, \<^verbatim>\<open>check\<close> and
  \<^verbatim>\<open>make_from\<close> above, return a value, as their contracts say.
\<close>

record 's collab =
  calc_field :: "xarray \<Rightarrow> 's \<Rightarrow> string \<Rightarrow> optics \<Rightarrow> exn + ndarray"
  calc_holo :: "xarray \<Rightarrow> 's \<Rightarrow> string \<Rightarrow> pyval \<Rightarrow> optics \<Rightarrow> exn + ndarray"
  make_subset_data :: "xarray \<Rightarrow> nat list \<Rightarrow> xarray"
  dict_to_array :: "xarray \<Rightarrow> pyval \<Rightarrow> ndarray"
  get_par :: "'s noise_model \<Rightarrow> string \<Rightarrow> pars \<Rightarrow> xarray option \<Rightarrow> pyval \<times> pars"
  u_optics_scatterer :: "'s noise_model \<Rightarrow> pars \<Rightarrow> xarray \<Rightarrow> optics \<times> 's"

text \<open>
  \<^verbatim>\<open>except (MultisphereFailure, InvalidScatterer): return -np.inf\<close>: the two scattering
  failures become the scalar minus infinity, any other exception propagates.
\<close>

fun catch_scattering :: "exn + ndarray \<Rightarrow> exn + ndarray" where
  "catch_scattering (Inl MultisphereFailure) = Inr (Scalar NInf)"
| "catch_scattering (Inl InvalidScatterer) = Inr (Scalar NInf)"
| "catch_scattering r = r"

section \<open>NoiseModel: fields, likelihood and posterior; AlphaModel: the forward model\<close>

text \<open>
  \<^verbatim>\<open>def _fields(self, pars, schema):
      optics, scatterer = self._optics_scatterer(pars, schema)
      try:
          return calc_field(schema, scatterer, theory=self.theory, **optics)
      except (MultisphereFailure, InvalidScatterer):
          return -np.inf\<close>
  (the nested \<^verbatim>\<open>get_par\<close> the source defines first is never called).
\<close>

definition u_fields ::
  "'s collab \<Rightarrow> 's noise_model \<Rightarrow> pars \<Rightarrow> xarray \<Rightarrow> (exn + ndarray) \<times> 's event list" where
  "u_fields env self pars schema =
     (case u_optics_scatterer env self pars schema of
        (optics, scat) \<Rightarrow>
          (catch_scattering (calc_field env schema scat (theory_sel self) optics),
           [CalcField schema scat (theory_sel self) optics]))"

text \<open>
  \<^verbatim>\<open>def _forward(self, pars, schema, alpha=None):
      if alpha is not None:
          alpha = alpha
      else:
          alpha = self.get_par('alpha', pars)
      optics, scatterer = self._optics_scatterer(pars, schema)
      try:
          return calc_holo(schema, scatterer, theory=self.theory, scaling=alpha, **optics)
      except (MultisphereFailure, InvalidScatterer):
          return -np.inf\<close>
  This is \<^verbatim>\<open>AlphaModel._forward\<close>, the only \<^verbatim>\<open>_forward\<close> of the file.
\<close>

definition u_forward ::
  "'s collab \<Rightarrow> 's noise_model \<Rightarrow> pars \<Rightarrow> xarray \<Rightarrow> pyval option \<Rightarrow>
     (exn + ndarray) \<times> 's event list" where
  "u_forward env self pars schema alpha =
     (case (case alpha of
              Some a \<Rightarrow> (a, pars)
            | None \<Rightarrow> get_par env self ''alpha'' pars None) of
        (alpha', pars') \<Rightarrow>
          (case u_optics_scatterer env self pars' schema of
             (optics, scat) \<Rightarrow>
               (catch_scattering (calc_holo env schema scat (theory_sel self) alpha' optics),
                [CalcHolo schema scat (theory_sel self) alpha' optics])))"

text \<open>
  \<^verbatim>\<open>((forward-data)**2/(2*noise_sd**2)).values.sum()\<close>
\<close>

definition residual_sum :: "float_format \<Rightarrow> ndarray \<Rightarrow> fl list \<Rightarrow> ndarray \<Rightarrow> exn + fl" where
  "residual_sum F forward dat noise_sd =
     (case broadcast (fl_sub F) forward (Array dat) of
        Inl e \<Rightarrow> Inl e
      | Inr diff \<Rightarrow>
          (case broadcast (fl_div F) (nd_map (fl_sq F) diff)
                  (nd_map (\<lambda>s. fl_mul F (Fin 2) (fl_sq F s)) noise_sd) of
             Inl e \<Rightarrow> Inl e
           | Inr q \<Rightarrow> Inr (nd_sum F q)))"

text \<open>
  \<^verbatim>\<open>-N/2*np.log(2*np.pi)-N*np.mean(np.log(ensure_array(noise_sd)))\<close>
\<close>

definition norm_terms :: "float_format \<Rightarrow> ndarray \<Rightarrow> nat \<Rightarrow> fl" where
  "norm_terms F noise_sd N =
     fl_sub F
       (fl_mul F (fl_div F (Fin (- real N)) (Fin 2))
          (fl_log F (fl_mul F (Fin 2) (Fin (np_pi F)))))
       (fl_mul F (Fin (real N)) (np_mean F (map (fl_log F) (ensure_array noise_sd))))"

text \<open>
  \<^verbatim>\<open>def _lnlike(self, pars, data):
      noise_sd = dict_to_array(data,self.get_par('noise_sd', pars, data))
      forward = self._forward(pars, data)
      N = data.size
      return (-N/2*np.log(2*np.pi)-N*np.mean(np.log(ensure_array(noise_sd))) -
              ((forward-data)**2/(2*noise_sd**2)).values.sum())\<close>
  \<open>lnlike_return\<close> is the returned expression, from \<^verbatim>\<open>noise_sd\<close>, \<^verbatim>\<open>forward\<close> and the values
  of \<^verbatim>\<open>data\<close>.
\<close>

definition lnlike_return :: "float_format \<Rightarrow> ndarray \<Rightarrow> ndarray \<Rightarrow> fl list \<Rightarrow> exn + fl" where
  "lnlike_return F noise_sd forward dat =
     (case residual_sum F forward dat noise_sd of
        Inl e \<Rightarrow> Inl e
      | Inr rs \<Rightarrow> Inr (fl_sub F (norm_terms F noise_sd (length dat)) rs))"

definition u_lnlike ::
  "float_format \<Rightarrow> 's collab \<Rightarrow> 's noise_model \<Rightarrow> pars \<Rightarrow> xarray \<Rightarrow>
     (exn + fl) \<times> 's event list" where
  "u_lnlike F env self pars data =
     (case get_par env self ''noise_sd'' pars (Some data) of
        (nv, pars') \<Rightarrow>
          (let noise_sd = dict_to_array env data nv in
           (case u_forward env self pars' data None of
              (Inl e, calls) \<Rightarrow> (Inl e, calls)
            | (Inr forward, calls) \<Rightarrow>
                (lnlike_return F noise_sd forward (data_values data), calls))))"

text \<open>
  \<^verbatim>\<open>def lnlike(self, par_vals, data):
      return self._lnlike(self._pack(par_vals), data)\<close>
\<close>

definition lnlike ::
  "float_format \<Rightarrow> 's collab \<Rightarrow> 's noise_model \<Rightarrow> par_vals \<Rightarrow> xarray \<Rightarrow>
     (exn + fl) \<times> 's event list" where
  "lnlike F env self par_vals data = u_lnlike F env self (u_pack self par_vals) data"

text \<open>
  \<^verbatim>\<open>def lnposterior(self, par_vals, data, pixels=None):
      lnprior = self.lnprior(par_vals)
      if lnprior == -np.inf:
          return lnprior
      else:
          if pixels is not None:
              data = make_subset_data(data, pixels=pixels)
          return lnprior + self.lnlike(par_vals, data)\<close>
\<close>

definition lnposterior ::
  "float_format \<Rightarrow> 's collab \<Rightarrow> 's noise_model \<Rightarrow> par_vals \<Rightarrow> xarray \<Rightarrow> nat list option \<Rightarrow>
     (exn + fl) \<times> 's event list" where
  "lnposterior F env self par_vals data pixels =
     (case lnprior F self par_vals of
        Inl e \<Rightarrow> (Inl e, [])
      | Inr lp \<Rightarrow>
          if lp = NInf then (Inr lp, [])
          else
            (case (case pixels of
                     Some px \<Rightarrow> (make_subset_data env data px, [MakeSubsetData data px])
                   | None \<Rightarrow> (data, [])) of
               (data', calls1) \<Rightarrow>
                 (case lnlike F env self par_vals data' of
                    (Inl e, calls2) \<Rightarrow> (Inl e, calls1 @ calls2)
                  | (Inr ll, calls2) \<Rightarrow> (Inr (fl_add F lp ll), calls1 @ calls2))))"

section \<open>The likelihood of the spec\<close>

text \<open>
  The formula as the spec writes it, pixel by pixel: with \<open>N\<close> the total element count of
  the data, \<^verbatim>\<open>-N/2 * log(2 pi) - N * mean(log(noise_sd)) - sum((forward - data)^2 /
  (2 * noise_sd^2))\<close>, the noise level of a pixel being the scalar, the one element of a
  one-element array, or the element at the pixel.
\<close>

fun noise_fits :: "ndarray \<Rightarrow> nat \<Rightarrow> bool" where
  "noise_fits (Scalar s) n = True"
| "noise_fits (Array ss) n = (length ss = n \<or> length ss = 1)"




section \<open>Construction: the default constraint list\<close>

text \<open>
  Both constructors declare \<^verbatim>\<open>constraints=[]\<close>. Python evaluates a default once, when the
  \<^verbatim>\<open>def\<close> is executed, so each constructor owns one list object for all its calls; which
  list an instance ends up with is a question of references. List objects live in a store,
  by address.
\<close>

record 's py_store =
  lists :: "nat \<rightharpoonup> 's constraint list"
  next_addr :: nat

text \<open>Evaluating the display \<^verbatim>\<open>[]\<close>: a new, empty list object.\<close>

definition new_list :: "'s py_store \<Rightarrow> nat \<times> 's py_store" where
  "new_list st =
     (next_addr st, st\<lparr>lists := (lists st)(next_addr st \<mapsto> []), next_addr := Suc (next_addr st)\<rparr>)"

text \<open>\<^verbatim>\<open>lst.append(c)\<close> on the list object at an address.\<close>

definition list_append :: "nat \<Rightarrow> 's constraint \<Rightarrow> 's py_store \<Rightarrow> 's py_store" where
  "list_append a c st =
     (case lists st a of
        None \<Rightarrow> st
      | Some cs \<Rightarrow> st\<lparr>lists := (lists st)(a \<mapsto> cs @ [c])\<rparr>)"

text \<open>The defaults the two \<^verbatim>\<open>def __init__\<close> statements create when the module is loaded.\<close>

record init_defaults =
  NoiseModel_constraints :: nat
  AlphaModel_constraints :: nat

definition load_module :: "'s py_store \<Rightarrow> init_defaults \<times> 's py_store" where
  "load_module st =
     (case new_list st of
        (a, st') \<Rightarrow>
          (case new_list st' of
             (b, st'') \<Rightarrow> (\<lparr>NoiseModel_constraints = a, AlphaModel_constraints = b\<rparr>, st'')))"

text \<open>
  A model object: the scatterer template, the theory selector, the reference to its
  constraint list, and the parameters registered so far, by name.
\<close>

record 's model_obj =
  obj_scatterer :: "'s scatterer_template"
  obj_theory :: string
  obj_constraints :: nat
  obj_registered :: "(string \<times> ndarray option) list"

text \<open>
  Modelled from the spec: \<^verbatim>\<open>BaseModel.__init__\<close> is not in this file. By the spec the
  instance "owns a scatterer template, [...] a theory selector [...] and a list of
  Constraints", and an instance created without the argument holds the "one default
  collection": the constructor keeps the collection it is given. What it does with the
  three optical arguments is not described, and they are left out here.
\<close>

definition BaseModel_init :: "'s scatterer_template \<Rightarrow> string \<Rightarrow> nat \<Rightarrow> 's model_obj" where
  "BaseModel_init scat thy cs =
     \<lparr>obj_scatterer = scat, obj_theory = thy, obj_constraints = cs, obj_registered = []\<rparr>"

text \<open>
  Modelled from the spec: \<^verbatim>\<open>BaseModel._use_parameter\<close> is not in this file; it "registers"
  the value "as a parameter named" by its second argument.
\<close>

definition u_use_parameter :: "ndarray option \<Rightarrow> string \<Rightarrow> 's model_obj \<Rightarrow> 's model_obj" where
  "u_use_parameter v n obj = obj\<lparr>obj_registered := obj_registered obj @ [(n, v)]\<rparr>"

text \<open>
  \<^verbatim>\<open>def __init__(self, scatterer, noise_sd, medium_index=None, illum_wavelen=None,
               illum_polarization=None, theory='auto', constraints=[]):
      super().__init__(scatterer, medium_index, illum_wavelen, illum_polarization,
                       theory, constraints)
      self._use_parameter(ensure_array(noise_sd), 'noise_sd')\<close>
  An omitted keyword argument is \<open>None\<close> here and takes the default of the \<^verbatim>\<open>def\<close>;
  a \<^verbatim>\<open>noise_sd\<close> of \<^verbatim>\<open>None\<close> is registered as it is.
\<close>

definition NoiseModel_init ::
  "init_defaults \<Rightarrow> 's scatterer_template \<Rightarrow> ndarray option \<Rightarrow> string option \<Rightarrow> nat option \<Rightarrow>
     's model_obj" where
  "NoiseModel_init dflt scat noise_sd thy cs =
     u_use_parameter (map_option (\<lambda>v. Array (ensure_array v)) noise_sd) ''noise_sd''
       (BaseModel_init scat
          (case thy of None \<Rightarrow> ''auto'' | Some t \<Rightarrow> t)
          (case cs of None \<Rightarrow> NoiseModel_constraints dflt | Some r \<Rightarrow> r))"

text \<open>
  \<^verbatim>\<open>def __init__(self, scatterer, noise_sd=None, alpha=1, medium_index=None,
               illum_wavelen=None, illum_polarization=None, theory='auto', constraints=[]):
      super().__init__(scatterer, noise_sd, medium_index, illum_wavelen,
                       illum_polarization, theory, constraints)
      self._use_parameter(alpha, 'alpha')\<close>
\<close>

definition AlphaModel_init ::
  "init_defaults \<Rightarrow> 's scatterer_template \<Rightarrow> ndarray option \<Rightarrow> ndarray option \<Rightarrow>
     string option \<Rightarrow> nat option \<Rightarrow> 's model_obj" where
  "AlphaModel_init dflt scat noise_sd alpha thy cs =
     u_use_parameter (Some (case alpha of None \<Rightarrow> Scalar (Fin 1) | Some a \<Rightarrow> a)) ''alpha''
       (NoiseModel_init dflt scat noise_sd
          (Some (case thy of None \<Rightarrow> ''auto'' | Some t \<Rightarrow> t))
          (Some (case cs of None \<Rightarrow> AlphaModel_constraints dflt | Some r \<Rightarrow> r)))"

text \<open>\<^verbatim>\<open>obj.constraints\<close>, read through the reference.\<close>

definition constraints_of :: "'s py_store \<Rightarrow> 's model_obj \<Rightarrow> 's constraint list option" where
  "constraints_of st obj = lists st (obj_constraints obj)"

section \<open>Concrete instances\<close>

text \<open>
  A float format to evaluate the definitions in: the range of binary64 without the
  rounding of the mantissa. A result of magnitude \<open>2^1024\<close> or more overflows to an
  infinity, one below \<open>2^-1075\<close> underflows to zero, and any other is returned as it is;
  an array is summed from the left.
\<close>

definition range_rnd :: "real \<Rightarrow> fl" where
  "range_rnd x =
     (if 2 ^ 1024 \<le> \<bar>x\<bar> then signed_inf (0 < x)
      else if \<bar>x\<bar> < 1 / 2 ^ 1075 then Fin 0
      else Fin x)"

definition binary64_scalar :: float_format where
  "binary64_scalar =
     \<lparr>repr = (\<lambda>x. x = 0 \<or> (1 / 2 ^ 1075 \<le> \<bar>x\<bar> \<and> \<bar>x\<bar> < 2 ^ 1024)),
      rnd = range_rnd,
      rlog = (\<lambda>x. range_rnd (ln x)),
      np_pi = pi,
      asum = (\<lambda>xs. NaN)\<rparr>"

definition binary64_range :: float_format where
  "binary64_range = binary64_scalar\<lparr>asum := foldl (fl_add binary64_scalar) (Fin 0)\<rparr>"


text \<open>
  A small model to evaluate the definitions on: the scatterer is a sphere known by its
  radius \<^verbatim>\<open>r\<close> alone (not-a-number when the dictionary holds no number for it), constrained
  to a positive radius, with the two parameters \<^verbatim>\<open>r\<close> and \<^verbatim>\<open>n\<close>.
\<close>

definition radius_template :: "fl scatterer_template" where
  "radius_template = \<lparr>make_from = (\<lambda>d. case d ''r'' of Some (Num x) \<Rightarrow> x | _ \<Rightarrow> NaN)\<rparr>"

definition positive_radius :: "fl constraint" where
  "positive_radius = \<lparr>check = (\<lambda>s. fl_less (Fin 0) s)\<rparr>"

definition par_r :: parameter where
  "par_r =
     \<lparr>name = ''r'',
      lnprob = (\<lambda>v. case v of Num x \<Rightarrow> fl_neg (fl_sq binary64_range x) | _ \<Rightarrow> NaN)\<rparr>"

definition par_n :: parameter where
  "par_n = \<lparr>name = ''n'', lnprob = (\<lambda>v. case v of Num x \<Rightarrow> x | _ \<Rightarrow> NaN)\<rparr>"

definition sphere_model :: "fl noise_model" where
  "sphere_model =
     \<lparr>scatterer = radius_template, parameters = [par_r, par_n],
      constraints = [positive_radius], theory_sel = ''auto''\<rparr>"

text \<open>
  Stand-ins for the external calls. \<open>echo_solver\<close> predicts the schema's own values times
  the scaling; \<open>failing_solver\<close> raises a scattering failure at every call. Both resolve
  a parameter by popping it from the dictionary, with \<open>1\<close> where it is absent, and pass
  the rest of the dictionary to the template.
\<close>

definition echo_solver :: "fl collab" where
  "echo_solver =
     \<lparr>calc_field = (\<lambda>schema scat thy opt. Inr (Array (data_values schema))),
      calc_holo = (\<lambda>schema scat thy alpha opt.
        case alpha of
          Num a \<Rightarrow> Inr (Array (map (fl_mul binary64_range a) (data_values schema)))
        | _ \<Rightarrow> Inl (OtherError ''scaling'')),
      make_subset_data = (\<lambda>d px. DataArray (map (\<lambda>i. data_values d ! i) px) (attrs d)),
      dict_to_array = (\<lambda>d v. case v of Num x \<Rightarrow> Scalar x | NdArr xs \<Rightarrow> Array xs | Str k \<Rightarrow> Scalar NaN),
      get_par = (\<lambda>self n pars schema.
        (case pars n of Some v \<Rightarrow> v | None \<Rightarrow> Num (Fin 1), pars(n := None))),
      u_optics_scatterer = (\<lambda>self pars schema. ([], make_from (scatterer self) pars))\<rparr>"

definition failing_solver :: "fl collab" where
  "failing_solver =
     echo_solver
       \<lparr>calc_field := (\<lambda>schema scat thy opt. Inl InvalidScatterer),
        calc_holo := (\<lambda>schema scat thy alpha opt. Inl MultisphereFailure)\<rparr>"

text \<open>A solver that must not be reached: it raises an exception that is not caught.\<close>

definition forbidden_solver :: "fl collab" where
  "forbidden_solver =
     echo_solver
       \<lparr>calc_field := (\<lambda>schema scat thy opt. Inl (OtherError ''solver called'')),
        calc_holo := (\<lambda>schema scat thy alpha opt. Inl (OtherError ''solver called''))\<rparr>"

text \<open>The same model with no constraint registered.\<close>

definition free_model :: "fl noise_model" where
  "free_model = sphere_model\<lparr>constraints := []\<rparr>"

definition two_pixels :: xarray where
  "two_pixels = DataArray [Fin 1, Fin 2] []"

section \<open>Evaluation in the range format\<close>

lemmas fixture_defs = sphere_model_def positive_radius_def radius_template_def par_r_def par_n_def
  echo_solver_def failing_solver_def forbidden_solver_def two_pixels_def free_model_def

lemmas eval_defs = lnprior_def u_pack_def seq_lnprobs_def py_sum_def fl_sq_def fl_sub_def
  lnposterior_def lnlike_def u_lnlike_def lnlike_return_def norm_terms_def u_forward_def
  u_fields_def residual_sum_def np_mean_def signed_inf_def

lemma rnd_in_range:
  "1 / 2 ^ 1075 \<le> \<bar>x\<bar> \<Longrightarrow> \<bar>x\<bar> < 2 ^ 1024 \<Longrightarrow> range_rnd x = Fin x"
  by (simp add: range_rnd_def)

lemma rnd_zero: "range_rnd 0 = Fin 0"
  by (simp add: range_rnd_def)

lemma b64_fields:
  "rnd binary64_range = range_rnd"
  "rnd binary64_scalar = range_rnd"
  "rlog binary64_range = (\<lambda>x. range_rnd (ln x))"
  "np_pi binary64_range = pi"
  "asum binary64_range = foldl (fl_add binary64_scalar) (Fin 0)"
  "repr binary64_range = (\<lambda>x. x = 0 \<or> (1 / 2 ^ 1075 \<le> \<bar>x\<bar> \<and> \<bar>x\<bar> < 2 ^ 1024))"
  by (simp_all add: binary64_range_def binary64_scalar_def)

lemmas b64_eval = b64_fields rnd_in_range rnd_zero

lemma ln_two_pi_bounds: "1 < ln (2 * pi)" "ln (2 * pi) < 7"
proof -
  have "exp 1 < 2 * pi"
    using exp_le pi_ge_two by linarith
  then have "ln (exp 1) < ln (2 * pi)"
    by (subst ln_less_cancel_iff) (auto simp: pi_gt_zero)
  then show "1 < ln (2 * pi)" by simp
  have "ln (2 * pi) \<le> 2 * pi - 1"
    by (rule ln_le_minus_one) (simp add: pi_gt_zero)
  then show "ln (2 * pi) < 7"
    using pi_less_4 by linarith
qed

lemmas pi_facts = ln_two_pi_bounds pi_ge_two pi_less_4

section \<open>The prior\<close>

lemma sphere_prior_rejects:
  "lnprior binary64_range sphere_model (Seq [Num (Fin (- 1)), Num (Fin 2)]) = Inr NInf"
  by (simp add: fixture_defs eval_defs)

lemma sphere_prior_accepts:
  "lnprior binary64_range sphere_model (Seq [Num (Fin 3), Num (Fin 2)]) = Inr (Fin (- 7))"
  by (simp add: fixture_defs eval_defs b64_eval)

lemma constraint_loop_violated:
  "\<exists>c\<in>set cs. \<not> check c (make_from (scatterer self) (u_pack self pv)) \<Longrightarrow>
   constraint_loop self pv cs = Some NInf"
  by (induction cs) auto

lemma constraint_loop_satisfied:
  "\<forall>c\<in>set cs. check c (make_from (scatterer self) (u_pack self pv)) \<Longrightarrow>
   constraint_loop self pv cs = None"
  by (induction cs) auto

text \<open>
  C1. Whenever the check of at least one registered constraint fails on the scatterer
  materialised from \<^verbatim>\<open>_pack(par_vals)\<close>, \<^verbatim>\<open>lnprior\<close> returns exactly minus infinity. The
  statement covers every input form and every prior density, so the value cannot come
  from the summation: in the second instance below the dictionary has no entry for
  \<^verbatim>\<open>r\<close>, and summing would have raised \<^verbatim>\<open>KeyError\<close>.
\<close>

theorem lnprior_constraint_violated:
  assumes "\<exists>c\<in>set (constraints self).
             \<not> check c (make_from (scatterer self) (u_pack self par_vals))"
  shows "lnprior F self par_vals = Inr NInf"
  using constraint_loop_violated [OF assms] by (simp add: lnprior_def)

theorem lnprior_constraint_violated_witness:
  "lnprior binary64_range sphere_model (Seq [Num (Fin (- 1)), Num (Fin 2)]) = Inr NInf \<and>
   lnprior binary64_range sphere_model (Dict [(''n'', Num (Fin 2))]) = Inr NInf"
proof -
  have a: "\<exists>c\<in>set (constraints sphere_model).
      \<not> check c (make_from (scatterer sphere_model)
             (u_pack sphere_model (Seq [Num (Fin (- 1)), Num (Fin 2)])))"
    by (simp add: sphere_model_def positive_radius_def radius_template_def u_pack_def
        par_r_def par_n_def)
  have b: "\<exists>c\<in>set (constraints sphere_model).
      \<not> check c (make_from (scatterer sphere_model)
             (u_pack sphere_model (Dict [(''n'', Num (Fin 2))])))"
    by (simp add: sphere_model_def positive_radius_def radius_template_def u_pack_def
        par_r_def par_n_def)
  show ?thesis
    using lnprior_constraint_violated [OF a] lnprior_constraint_violated [OF b] by simp
qed





lemma dict_lnprobs_total:
  "\<forall>p\<in>set ps. map_of d (name p) = Some (val (name p)) \<Longrightarrow>
   dict_lnprobs d ps = Inr (map (\<lambda>p. lnprob p (val (name p))) ps)"
  by (induction ps) auto

text \<open>
  The dictionary form: when every check of the loop succeeds on the scatterer that the
  loop materialises, and every parameter name is a key, the prior is the sum of the
  densities at the values stored under the names.
\<close>

lemma lnprior_dict:
  assumes "\<forall>c\<in>set (constraints self).
             check c (make_from (scatterer self) (u_pack self (Dict d)))"
    and "\<forall>p\<in>set (parameters self). map_of d (name p) = Some (val (name p))"
  shows "lnprior F self (Dict d) =
     Inr (py_sum F (map (\<lambda>p. lnprob p (val (name p))) (parameters self)))"
  using constraint_loop_satisfied [OF assms(1)] dict_lnprobs_total [OF assms(2)]
  by (simp add: lnprior_def)

text \<open>
  C3. The claim asks that an input whose values satisfy the constraints gets the sum of
  the densities in both input forms, and that the two forms agree on corresponding
  values. The summation reads a dictionary by name, but the constraint loop packs
  whatever \<^verbatim>\<open>zip\<close> iterates over, and for a dictionary that is its keys: the scatterer is
  then materialised from the parameter names, not from the values. For the radius 3 and
  the constraint of a positive radius, the positional form gives the sum, \<open>-7\<close>, and the
  dictionary form of the same values is rejected with minus infinity; with no constraint
  registered the dictionary form gives \<open>-7\<close> as well.
\<close>

theorem lnprior_dict_constraint_on_keys:
  "lnprior binary64_range sphere_model (Seq [Num (Fin 3), Num (Fin 2)]) = Inr (Fin (- 7)) \<and>
   lnprior binary64_range sphere_model (Dict [(''r'', Num (Fin 3)), (''n'', Num (Fin 2))]) = Inr NInf \<and>
   u_pack sphere_model (Dict [(''r'', Num (Fin 3)), (''n'', Num (Fin 2))]) ''r''
     = Some (Str ''r'') \<and>
   lnprior binary64_range free_model (Dict [(''r'', Num (Fin 3)), (''n'', Num (Fin 2))]) = Inr (Fin (- 7))"
  using pi_facts by (simp add: fixture_defs eval_defs b64_eval)



section \<open>The posterior\<close>

text \<open>
  C2. If \<^verbatim>\<open>lnprior(par_vals)\<close> is minus infinity, \<^verbatim>\<open>lnposterior\<close> returns minus infinity and
  makes no external call at all: neither the solver nor the data subsetting is reached,
  for every data array and every \<^verbatim>\<open>pixels\<close>. In the instance the solver would have
  raised had the likelihood been evaluated.
\<close>

theorem lnposterior_short_circuit:
  assumes "lnprior F self par_vals = Inr NInf"
  shows "lnposterior F env self par_vals data pixels = (Inr NInf, [])"
  using assms by (simp add: lnposterior_def)

theorem lnposterior_short_circuit_witness:
  "lnposterior binary64_range forbidden_solver sphere_model (Seq [Num (Fin (- 1)), Num (Fin 2)]) two_pixels
       (Some [0])
     = (Inr NInf, []) \<and>
   fst (lnlike binary64_range forbidden_solver sphere_model (Seq [Num (Fin (- 1)), Num (Fin 2)]) two_pixels)
     = Inl (OtherError ''solver called'')"
  using lnposterior_short_circuit
    [OF sphere_prior_rejects, of forbidden_solver two_pixels "Some [0]"]
  using pi_facts by (simp add: fixture_defs eval_defs b64_eval)

text \<open>
  C5. With \<^verbatim>\<open>pixels\<close> not supplied and \<^verbatim>\<open>lnprior(p)\<close> strictly above minus infinity,
  \<^verbatim>\<open>lnposterior(p, data)\<close> is \<^verbatim>\<open>lnprior(p) + lnlike(p, data)\<close>; an exception of the
  likelihood is the exception of the posterior.
\<close>

theorem lnposterior_prior_plus_like:
  assumes "lnprior F self par_vals = Inr lp" and "fl_less NInf lp"
  shows "fst (lnposterior F env self par_vals data None) =
           (case fst (lnlike F env self par_vals data) of
              Inl e \<Rightarrow> Inl e
            | Inr ll \<Rightarrow> Inr (fl_add F lp ll))"
  using assms by (auto simp: lnposterior_def split: prod.splits sum.splits)

lemma sphere_like:
  "fst (lnlike binary64_range echo_solver sphere_model (Seq [Num (Fin 3), Num (Fin 2)]) two_pixels)
     = Inr (Fin (- ln (2 * pi)))"
  using pi_facts by (simp add: fixture_defs eval_defs b64_eval)

theorem lnposterior_prior_plus_like_witness:
  "fst (lnposterior binary64_range echo_solver sphere_model (Seq [Num (Fin 3), Num (Fin 2)]) two_pixels None)
     = Inr (Fin (- 7 - ln (2 * pi)))"
proof -
  have "fl_less NInf (Fin (- 7))" by simp
  from lnposterior_prior_plus_like [OF sphere_prior_accepts this, of echo_solver two_pixels]
  show ?thesis
    using pi_facts by (simp add: sphere_like b64_eval)
qed

lemma lnlike_calls:
  "\<exists>scat alpha opt.
     snd (lnlike F env self par_vals data) = [CalcHolo data scat (theory_sel self) alpha opt]"
  by (auto simp: lnlike_def u_lnlike_def u_forward_def Let_def
      split: prod.splits sum.splits option.splits)

text \<open>
  C8. With \<^verbatim>\<open>pixels\<close> supplied and \<^verbatim>\<open>lnprior(p)\<close> strictly above minus infinity, the
  posterior is the prior plus the likelihood of \<^verbatim>\<open>make_subset_data(data, pixels)\<close>, and
  the external calls are exactly two: the subsetting, with the data and the pixel set as
  supplied, and then one solver call whose schema is the subset, not the full data.
\<close>

theorem lnposterior_subset:
  assumes "lnprior F self par_vals = Inr lp" and "fl_less NInf lp"
  shows "fst (lnposterior F env self par_vals data (Some px)) =
           (case fst (lnlike F env self par_vals (make_subset_data env data px)) of
              Inl e \<Rightarrow> Inl e
            | Inr ll \<Rightarrow> Inr (fl_add F lp ll)) \<and>
         (\<exists>scat alpha opt. snd (lnposterior F env self par_vals data (Some px)) =
            [MakeSubsetData data px,
             CalcHolo (make_subset_data env data px) scat (theory_sel self) alpha opt])"
proof -
  obtain scat alpha opt where
    c: "snd (lnlike F env self par_vals (make_subset_data env data px)) =
          [CalcHolo (make_subset_data env data px) scat (theory_sel self) alpha opt]"
    using lnlike_calls [of F env self par_vals "make_subset_data env data px"] by auto
  from assms c show ?thesis
    by (auto simp: lnposterior_def split: prod.splits sum.splits)
qed

theorem lnposterior_subset_witness:
  "lnposterior binary64_range echo_solver sphere_model (Seq [Num (Fin 3), Num (Fin 2)]) two_pixels (Some [1])
     = (Inr (Fin (- 7 - ln (2 * pi) / 2)),
        [MakeSubsetData two_pixels [1],
         CalcHolo (DataArray [Fin 2] []) (Fin 3) ''auto'' (Num (Fin 1)) []])"
proof -
  have "fl_less NInf (Fin (- 7))" by simp
  from lnposterior_subset [OF sphere_prior_accepts this, of echo_solver two_pixels "[1]"]
  show ?thesis
    using pi_facts by (simp add: fixture_defs eval_defs b64_eval)
qed

section \<open>The forward model of AlphaModel\<close>

text \<open>
  C7. For a parameter dictionary with an \<^verbatim>\<open>alpha\<close> entry and an \<^verbatim>\<open>alpha\<close> passed
  explicitly, \<^verbatim>\<open>_forward\<close> makes one solver call and its scaling is the argument, whatever
  the entry: the dictionary is not consulted for it. In the instance the entry is 5 and
  the argument 2; without the argument the scaling is the entry.
\<close>

theorem forward_alpha_override:
  assumes "pars ''alpha'' = Some b"
  shows "u_forward env self pars schema (Some a) =
     (case u_optics_scatterer env self pars schema of
        (opt, scat) \<Rightarrow>
          (catch_scattering (calc_holo env schema scat (theory_sel self) a opt),
           [CalcHolo schema scat (theory_sel self) a opt]))"
  by (simp add: u_forward_def split: prod.splits)

theorem forward_alpha_override_witness:
  "u_forward echo_solver sphere_model [''alpha'' \<mapsto> Num (Fin 5)] two_pixels (Some (Num (Fin 2)))
     = (Inr (Array [Fin 2, Fin 4]),
        [CalcHolo two_pixels NaN ''auto'' (Num (Fin 2)) []]) \<and>
   u_forward echo_solver sphere_model [''alpha'' \<mapsto> Num (Fin 5)] two_pixels None
     = (Inr (Array [Fin 5, Fin 10]),
        [CalcHolo two_pixels NaN ''auto'' (Num (Fin 5)) []])"
proof -
  have "[''alpha'' \<mapsto> Num (Fin 5)] ''alpha'' = Some (Num (Fin 5))" by simp
  from forward_alpha_override
    [of "[''alpha'' \<mapsto> Num (Fin 5)]" "Num (Fin 5)" echo_solver sphere_model two_pixels
      "Num (Fin 2)", OF this]
  show ?thesis
    using pi_facts by (simp add: fixture_defs eval_defs b64_eval)
qed


section \<open>Float formats\<close>

text \<open>The range format is a format in the sense of \<open>ieee_format\<close>.\<close>

lemma ieee_range: "ieee_format binary64_range"
  unfolding ieee_format_def
proof (intro conjI allI impI)
  show "repr binary64_range 0" "repr binary64_range 1"
    by (simp_all add: b64_fields)
next
  fix x assume "repr binary64_range x"
  then show "rnd binary64_range x = Fin x"
    by (auto simp: b64_fields range_rnd_def)
next
  fix x y assume "rnd binary64_range x = Fin y"
  then show "repr binary64_range y"
    by (auto simp: b64_fields range_rnd_def signed_inf_def split: if_splits)
next
  fix x y :: real assume "0 \<le> x" "rnd binary64_range x = Fin y"
  then show "0 \<le> y"
    by (auto simp: b64_fields range_rnd_def signed_inf_def split: if_splits)
next
  fix x y assume "rlog binary64_range x = Fin y"
  then show "repr binary64_range y"
    by (auto simp: b64_fields range_rnd_def signed_inf_def split: if_splits)
next
  fix xs :: "fl list" assume "list_all (\<lambda>x. x = Fin 0) xs"
  then show "asum binary64_range xs = Fin 0"
    by (induction xs) (simp_all add: b64_fields rnd_zero)
next
  fix xs :: "fl list" assume "xs \<noteq> []" "list_all (\<lambda>x. x = PInf) xs"
  moreover have "list_all (\<lambda>x. x = PInf) ys \<Longrightarrow> foldl (fl_add binary64_scalar) PInf ys = PInf" for ys
    by (induction ys) simp_all
  ultimately show "asum binary64_range xs = PInf"
    by (cases xs) (simp_all add: b64_fields)
next
  fix x assume "is_float binary64_range x"
  then show "asum binary64_range [x] = x"
    by (cases x) (auto simp: b64_fields range_rnd_def)
qed


lemma ieeeD:
  assumes "ieee_format F"
  shows "rnd F 0 = Fin 0"
    and "\<And>x. repr F x \<Longrightarrow> rnd F x = Fin x"
    and "\<And>x y. rnd F x = Fin y \<Longrightarrow> repr F y"
    and "\<And>x y. 0 \<le> x \<Longrightarrow> rnd F x = Fin y \<Longrightarrow> 0 \<le> y"
    and "\<And>x y. rlog F x = Fin y \<Longrightarrow> repr F y"
    and "\<And>xs. list_all (\<lambda>x. x = Fin 0) xs \<Longrightarrow> asum F xs = Fin 0"
    and "\<And>xs. xs \<noteq> [] \<Longrightarrow> list_all (\<lambda>x. x = PInf) xs \<Longrightarrow> asum F xs = PInf"
    and "\<And>x. is_float F x \<Longrightarrow> asum F [x] = x"
    and "repr F 1"
  using assms unfolding ieee_format_def by blast+

lemma fl_add_NaN_right: "fl_add F x NaN = NaN"
  by (cases x) simp_all








section \<open>The likelihood\<close>

lemma u_lnlike_unfold:
  "u_lnlike F env self pars data =
     (case u_forward env self (snd (get_par env self ''noise_sd'' pars (Some data))) data None of
        (Inl e, calls) \<Rightarrow> (Inl e, calls)
      | (Inr forward, calls) \<Rightarrow>
          (lnlike_return F
             (dict_to_array env data (fst (get_par env self ''noise_sd'' pars (Some data))))
             forward (data_values data), calls))"
  by (simp add: u_lnlike_def Let_def case_prod_beta)

lemma u_lnlike_value:
  assumes "fst (u_forward env self (snd (get_par env self ''noise_sd'' pars (Some data))) data None)
             = Inr forward"
  shows "fst (u_lnlike F env self pars data) =
           lnlike_return F
             (dict_to_array env data (fst (get_par env self ''noise_sd'' pars (Some data))))
             forward (data_values data)"
  using assms by (auto simp: u_lnlike_unfold split: prod.splits sum.splits)

lemma u_lnlike_calls:
  "snd (u_lnlike F env self pars data) =
     snd (u_forward env self (snd (get_par env self ''noise_sd'' pars (Some data))) data None)"
  by (auto simp: u_lnlike_unfold split: prod.splits sum.splits)















section \<open>Scattering failures\<close>

lemma catch_scattering_failure:
  "failure = MultisphereFailure \<or> failure = InvalidScatterer \<Longrightarrow>
   catch_scattering (Inl failure) = Inr (Scalar NInf)"
  by auto

lemma broadcast_error: "broadcast f a b = Inl e \<Longrightarrow> e = ValueError"
  by (cases a; cases b) (auto split: if_splits)

lemma lnlike_return_error: "lnlike_return F noise forward ds = Inl e \<Longrightarrow> e = ValueError"
  by (auto simp: lnlike_return_def residual_sum_def split: sum.splits dest: broadcast_error)

lemma reject_diff: "fl_less NInf d \<Longrightarrow> fl_sq F (fl_sub F NInf d) = PInf"
  by (cases d) (simp_all add: fl_sub_def fl_sq_def)

lemma reject_term:
  assumes "ieee_format F" and "is_fin (fl_mul F (Fin 2) (fl_sq F s))"
  shows "fl_div F PInf (fl_mul F (Fin 2) (fl_sq F s)) = PInf"
proof -
  from assms(2) obtain y where y: "fl_mul F (Fin 2) (fl_sq F s) = Fin y"
    by (cases "fl_mul F (Fin 2) (fl_sq F s)") simp_all
  have "0 \<le> y"
  proof (cases "fl_sq F s")
    case (Fin q)
    then have "0 \<le> q"
      using ieeeD(4) [OF assms(1), of "x * x" q for x]
      by (cases s) (auto simp: fl_sq_def signed_inf_def split: if_splits)
    with y Fin show ?thesis
      using ieeeD(4) [OF assms(1), of "2 * q" y] by simp
  qed (use y in \<open>simp_all add: signed_inf_def\<close>)
  with y show ?thesis
    by (simp add: signed_inf_def)
qed

lemma residual_sum_reject:
  assumes ieee: "ieee_format F" and ne: "ds \<noteq> []" and dat: "list_all (fl_less NInf) ds"
    and fits: "noise_fits noise (length ds)"
    and dens: "list_all (\<lambda>s. is_fin (fl_mul F (Fin 2) (fl_sq F s))) (ensure_array noise)"
  shows "residual_sum F (Scalar NInf) ds noise = Inr PInf"
proof -
  have sq: "map (fl_sq F) (map (fl_sub F NInf) ds) = map (\<lambda>d. PInf) ds"
    using dat by (simp add: list_all_iff reject_diff)
  have inf: "asum F (map (\<lambda>x. PInf) xs) = PInf" if "xs \<noteq> []" for xs :: "'b list"
    using that ieeeD(7) [OF ieee, of "map (\<lambda>x. PInf) xs"] by (simp add: list_all_iff)
  show ?thesis
  proof (cases noise)
    case (Scalar s)
    with dens have "fl_div F PInf (fl_mul F (Fin 2) (fl_sq F s)) = PInf"
      using reject_term [OF ieee] by simp
    with dat have "map (\<lambda>x. fl_div F x (fl_mul F (Fin 2) (fl_sq F s)))
                     (map (fl_sq F) (map (fl_sub F NInf) ds)) = map (\<lambda>d. PInf) ds"
      by (simp add: list_all_iff reject_diff)
    then show ?thesis
      using Scalar inf [OF ne] by (simp add: residual_sum_def del: map_map)
  next
    case (Array ss)
    from dens Array have quot: "fl_div F PInf (fl_mul F (Fin 2) (fl_sq F s)) = PInf"
      if "s \<in> set ss" for s
      using that reject_term [OF ieee] by (simp add: list_all_iff)
    show ?thesis
    proof (cases "length ss = length ds")
      case True
      have "map (\<lambda>xy. fl_div F (fst xy) (snd xy))
              (zip (map (\<lambda>d. PInf) ds) (map (\<lambda>s. fl_mul F (Fin 2) (fl_sq F s)) ss))
            = map (\<lambda>x. PInf) (zip ds ss)"
        using quot by (auto simp: zip_map_map case_prod_beta dest: set_zip_rightD)
      moreover have "zip ds ss \<noteq> []"
        using ne True by (cases ds; cases ss) simp_all
      ultimately show ?thesis
        using Array True sq inf [of "zip ds ss"] by (simp add: residual_sum_def del: map_map)
    next
      case False
      with fits Array obtain s where ss: "ss = [s]"
        by (cases ss) auto
      with quot have "fl_div F PInf (fl_mul F (Fin 2) (fl_sq F s)) = PInf"
        by simp
      with dat have "map (\<lambda>x. fl_div F x (fl_mul F (Fin 2) (fl_sq F s)))
                       (map (fl_sq F) (map (fl_sub F NInf) ds)) = map (\<lambda>d. PInf) ds"
        by (simp add: list_all_iff reject_diff)
      then show ?thesis
        using Array False ss inf [OF ne] by (simp add: residual_sum_def del: map_map)
    qed
  qed
qed

lemma reject_value: "fl_less p PInf \<Longrightarrow> fl_sub F p PInf = NInf"
  by (cases p) (simp_all add: fl_sub_def)

lemma lnlike_return_reject:
  assumes "ieee_format F" and "ds \<noteq> []" and "list_all (fl_less NInf) ds"
    and "noise_fits noise (length ds)"
    and "list_all (\<lambda>s. is_fin (fl_mul F (Fin 2) (fl_sq F s))) (ensure_array noise)"
    and "fl_less (norm_terms F noise (length ds)) PInf"
  shows "lnlike_return F noise (Scalar NInf) ds = Inr NInf"
  using residual_sum_reject [OF assms(1-5)] reject_value [OF assms(6)]
  by (simp add: lnlike_return_def)


text \<open>
  C4, as amended. When the solver call that \<^verbatim>\<open>_fields\<close> or \<^verbatim>\<open>_forward\<close> makes raises
  \<^verbatim>\<open>MultisphereFailure\<close> or \<^verbatim>\<open>InvalidScatterer\<close>, the method returns minus infinity in place
  of the exception, for every input (first and second part). \<^verbatim>\<open>_lnlike\<close> then does not
  propagate the exception either, for every input and in every float format (third
  part); it has no handler of its own and computes with the minus infinity that
  \<^verbatim>\<open>_forward\<close> returned. What it returns is minus infinity (fourth part) when the data is
  not empty and holds no not-a-number and no minus infinity, the noise level is a scalar,
  a one-element array or one value per pixel, every \<^verbatim>\<open>2*noise_sd**2\<close> evaluates to a
  finite float (no overflow), and the terms
  \<^verbatim>\<open>-N/2*log(2*pi) - N*mean(log(noise_sd))\<close> evaluate to a float below plus infinity; this
  in every format with the properties \<open>ieee_format\<close> lists.
\<close>

theorem scattering_failure_rejects:
  assumes failure: "failure = MultisphereFailure \<or> failure = InvalidScatterer"
  defines "noise \<equiv> \<lambda>env self pars schema.
             dict_to_array env schema (fst (get_par env self ''noise_sd'' pars (Some schema)))"
  shows "(snd (u_fields env self pars schema) = [CalcField sch scat thy opt] \<and>
          calc_field env sch scat thy opt = Inl failure \<longrightarrow>
            fst (u_fields env self pars schema) = Inr (Scalar NInf)) \<and>
         (snd (u_forward env self pars schema alpha) = [CalcHolo sch scat thy a opt] \<and>
          calc_holo env sch scat thy a opt = Inl failure \<longrightarrow>
            fst (u_forward env self pars schema alpha) = Inr (Scalar NInf)) \<and>
         (snd (u_lnlike F env self pars schema) = [CalcHolo sch scat thy a opt] \<and>
          calc_holo env sch scat thy a opt = Inl failure \<longrightarrow>
            fst (u_lnlike F env self pars schema) \<noteq> Inl MultisphereFailure \<and>
            fst (u_lnlike F env self pars schema) \<noteq> Inl InvalidScatterer) \<and>
         (snd (u_lnlike F env self pars schema) = [CalcHolo sch scat thy a opt] \<and>
          calc_holo env sch scat thy a opt = Inl failure \<and>
          ieee_format F \<and>
          data_values schema \<noteq> [] \<and>
          list_all (fl_less NInf) (data_values schema) \<and>
          noise_fits (noise env self pars schema) (length (data_values schema)) \<and>
          list_all (\<lambda>s. is_fin (fl_mul F (Fin 2) (fl_sq F s)))
            (ensure_array (noise env self pars schema)) \<and>
          fl_less (norm_terms F (noise env self pars schema) (length (data_values schema))) PInf
          \<longrightarrow>
            fst (u_lnlike F env self pars schema) = Inr NInf)"
proof -
  let ?pars' = "snd (get_par env self ''noise_sd'' pars (Some schema))"
  have fields: "fst (u_fields env self pars schema) = Inr (Scalar NInf)"
    if "snd (u_fields env self pars schema) = [CalcField sch scat thy opt]"
      and "calc_field env sch scat thy opt = Inl failure"
    using that catch_scattering_failure [OF failure]
    by (auto simp: u_fields_def split: prod.splits)
  have forward: "fst (u_forward env self ps schema al) = Inr (Scalar NInf)"
    if "snd (u_forward env self ps schema al) = [CalcHolo sch scat thy a opt]"
      and "calc_holo env sch scat thy a opt = Inl failure" for ps al
    using that catch_scattering_failure [OF failure]
    by (auto simp: u_forward_def split: prod.splits option.splits)
  have like: "fst (u_lnlike F env self pars schema)
                = lnlike_return F (noise env self pars schema) (Scalar NInf) (data_values schema)"
    if "snd (u_lnlike F env self pars schema) = [CalcHolo sch scat thy a opt]"
      and "calc_holo env sch scat thy a opt = Inl failure"
  proof -
    from that(1) have "snd (u_forward env self ?pars' schema None) = [CalcHolo sch scat thy a opt]"
      by (simp add: u_lnlike_calls)
    from u_lnlike_value [OF forward [OF this that(2)]] show ?thesis
      by (simp add: noise_def)
  qed
  have caught: "fst (u_lnlike F env self pars schema) \<noteq> Inl MultisphereFailure \<and>
                fst (u_lnlike F env self pars schema) \<noteq> Inl InvalidScatterer"
    if "snd (u_lnlike F env self pars schema) = [CalcHolo sch scat thy a opt]"
      and "calc_holo env sch scat thy a opt = Inl failure"
    using like [OF that]
      lnlike_return_error [of F "noise env self pars schema" "Scalar NInf" "data_values schema"]
    by auto
  have rejected: "fst (u_lnlike F env self pars schema) = Inr NInf"
    if "snd (u_lnlike F env self pars schema) = [CalcHolo sch scat thy a opt]"
      and "calc_holo env sch scat thy a opt = Inl failure"
      and "ieee_format F" and "data_values schema \<noteq> []"
      and "list_all (fl_less NInf) (data_values schema)"
      and "noise_fits (noise env self pars schema) (length (data_values schema))"
      and "list_all (\<lambda>s. is_fin (fl_mul F (Fin 2) (fl_sq F s)))
             (ensure_array (noise env self pars schema))"
      and "fl_less (norm_terms F (noise env self pars schema) (length (data_values schema))) PInf"
    using like [OF that(1,2)] lnlike_return_reject [OF that(3-8)] by simp
  from fields forward caught rejected show ?thesis
    by blast
qed


text \<open>
  C4 as stated fails for \<^verbatim>\<open>_lnlike\<close>. On an empty data array every term of the returned
  expression is zero, and \<^verbatim>\<open>_lnlike\<close> returns \<open>0\<close>; with a noise level of zero the two
  infinite terms cancel into not-a-number; with the noise level \<^verbatim>\<open>1e200\<close> the square
  overflows and \<^verbatim>\<open>inf / inf\<close> is not-a-number; on a datum of minus infinity the
  residual \<^verbatim>\<open>-inf - (-inf)\<close> is not-a-number. In all four the solver raised
  \<^verbatim>\<open>MultisphereFailure\<close> at the one call made.
\<close>

theorem lnlike_not_rejected_counterexample:
  "u_lnlike binary64_range failing_solver sphere_model Map.empty (DataArray [] [])
     = (Inr (Fin 0), [CalcHolo (DataArray [] []) NaN ''auto'' (Num (Fin 1)) []]) \<and>
   calc_holo failing_solver (DataArray [] []) NaN ''auto'' (Num (Fin 1)) []
     = Inl MultisphereFailure \<and>
   u_lnlike binary64_range failing_solver sphere_model [''noise_sd'' \<mapsto> Num (Fin 0)] two_pixels
     = (Inr NaN, [CalcHolo two_pixels NaN ''auto'' (Num (Fin 1)) []]) \<and>
   u_lnlike binary64_range failing_solver sphere_model [''noise_sd'' \<mapsto> Num (Fin (10 ^ 200))]
       two_pixels
     = (Inr NaN, [CalcHolo two_pixels NaN ''auto'' (Num (Fin 1)) []]) \<and>
   calc_holo failing_solver two_pixels NaN ''auto'' (Num (Fin 1)) []
     = Inl MultisphereFailure \<and>
   u_lnlike binary64_range failing_solver sphere_model Map.empty (DataArray [NInf] [])
     = (Inr NaN, [CalcHolo (DataArray [NInf] []) NaN ''auto'' (Num (Fin 1)) []]) \<and>
   calc_holo failing_solver (DataArray [NInf] []) NaN ''auto'' (Num (Fin 1)) []
     = Inl MultisphereFailure"
  using pi_facts
  by (simp add: fixture_defs eval_defs b64_eval fl_add_NaN_right range_rnd_def)

theorem scattering_failure_rejects_witness:
  "u_fields failing_solver sphere_model Map.empty two_pixels
     = (Inr (Scalar NInf), [CalcField two_pixels NaN ''auto'' []]) \<and>
   u_forward failing_solver sphere_model Map.empty two_pixels None
     = (Inr (Scalar NInf), [CalcHolo two_pixels NaN ''auto'' (Num (Fin 1)) []]) \<and>
   fst (u_lnlike binary64_range failing_solver sphere_model Map.empty (DataArray [] []))
     \<noteq> Inl MultisphereFailure \<and>
   u_lnlike binary64_range failing_solver sphere_model Map.empty two_pixels
     = (Inr NInf, [CalcHolo two_pixels NaN ''auto'' (Num (Fin 1)) []]) \<and>
   u_lnlike binary64_range failing_solver sphere_model [''noise_sd'' \<mapsto> NdArr [Fin 1]]
       two_pixels
     = (Inr NInf, [CalcHolo two_pixels NaN ''auto'' (Num (Fin 1)) []]) \<and>
   u_lnlike binary64_range failing_solver sphere_model [''noise_sd'' \<mapsto> NdArr [Fin 1, Fin 1]]
       two_pixels
     = (Inr NInf, [CalcHolo two_pixels NaN ''auto'' (Num (Fin 1)) []])"
proof -
  let ?P = "[''noise_sd'' \<mapsto> NdArr [Fin 1]]"
  let ?Q = "[''noise_sd'' \<mapsto> NdArr [Fin 1, Fin 1]]"
  let ?E = "DataArray [] []"
  have f1: "InvalidScatterer = MultisphereFailure \<or> InvalidScatterer = InvalidScatterer"
    by simp
  have f2: "MultisphereFailure = MultisphereFailure \<or> MultisphereFailure = InvalidScatterer"
    by simp
  have c1: "snd (u_fields failing_solver sphere_model Map.empty two_pixels)
              = [CalcField two_pixels NaN ''auto'' []]"
    by (simp add: fixture_defs eval_defs)
  have r1: "calc_field failing_solver two_pixels NaN ''auto'' [] = Inl InvalidScatterer"
    by (simp add: fixture_defs)
  have c2: "snd (u_forward failing_solver sphere_model Map.empty two_pixels None)
              = [CalcHolo two_pixels NaN ''auto'' (Num (Fin 1)) []]"
    by (simp add: fixture_defs eval_defs)
  have r2: "calc_holo failing_solver d NaN ''auto'' (Num (Fin 1)) [] = Inl MultisphereFailure"
    for d
    by (simp add: fixture_defs)
  have c3: "snd (u_lnlike binary64_range failing_solver sphere_model ps d)
              = [CalcHolo d NaN ''auto'' (Num (Fin 1)) []]"
    if "ps = Map.empty \<or> ps = ?P \<or> ps = ?Q" for ps d
    using that by (auto simp: fixture_defs u_lnlike_calls u_forward_def)
  have dat: "data_values two_pixels \<noteq> []" "list_all (fl_less NInf) (data_values two_pixels)"
    "Suc (Suc 0) = length (data_values two_pixels)"
    by (simp_all add: two_pixels_def)
  have nz: "dict_to_array failing_solver two_pixels
       (fst (get_par failing_solver sphere_model ''noise_sd'' Map.empty (Some two_pixels)))
         = Scalar (Fin 1)"
    by (simp add: fixture_defs)
  have np: "dict_to_array failing_solver two_pixels
       (fst (get_par failing_solver sphere_model ''noise_sd'' ?P (Some two_pixels)))
         = Array [Fin 1]"
    by (simp add: fixture_defs)
  have nq: "dict_to_array failing_solver two_pixels
       (fst (get_par failing_solver sphere_model ''noise_sd'' ?Q (Some two_pixels)))
         = Array [Fin 1, Fin 1]"
    by (simp add: fixture_defs)
  have den: "is_fin (fl_mul binary64_range (Fin 2) (fl_sq binary64_range (Fin 1)))"
    by (simp add: fl_sq_def b64_eval)
  have norm: "fl_less (norm_terms binary64_range nz (length (data_values two_pixels))) PInf"
    if "nz = Scalar (Fin 1) \<or> nz = Array [Fin 1] \<or> nz = Array [Fin 1, Fin 1]" for nz
    using that pi_facts by (auto simp: two_pixels_def eval_defs b64_eval)
  note fields_thm = scattering_failure_rejects
        [where failure = InvalidScatterer and env = failing_solver and self = sphere_model
          and pars = Map.empty and schema = two_pixels and sch = two_pixels and scat = NaN and thy = "''auto''" and opt = "[]"]
  note forward_thm = scattering_failure_rejects
        [where failure = MultisphereFailure and env = failing_solver and self = sphere_model
          and pars = Map.empty and schema = two_pixels and alpha = None
          and sch = two_pixels and a = "Num (Fin 1)" and scat = NaN and thy = "''auto''" and opt = "[]"]
  note caught_thm = scattering_failure_rejects
        [where failure = MultisphereFailure and env = failing_solver and self = sphere_model
          and F = binary64_range and pars = Map.empty and schema = ?E and sch = ?E
          and a = "Num (Fin 1)" and scat = NaN and thy = "''auto''" and opt = "[]"]
  note reject_thm = scattering_failure_rejects
        [where failure = MultisphereFailure and env = failing_solver and self = sphere_model
          and F = binary64_range and pars = Map.empty and schema = two_pixels
          and sch = two_pixels and a = "Num (Fin 1)" and scat = NaN and thy = "''auto''" and opt = "[]"]
  note reject_thm_P = scattering_failure_rejects
        [where failure = MultisphereFailure and env = failing_solver and self = sphere_model
          and F = binary64_range and pars = ?P and schema = two_pixels
          and sch = two_pixels and a = "Num (Fin 1)" and scat = NaN and thy = "''auto''" and opt = "[]"]
  note reject_thm_Q = scattering_failure_rejects
        [where failure = MultisphereFailure and env = failing_solver and self = sphere_model
          and F = binary64_range and pars = ?Q and schema = two_pixels
          and sch = two_pixels and a = "Num (Fin 1)" and scat = NaN and thy = "''auto''" and opt = "[]"]
  have a: "fst (u_fields failing_solver sphere_model Map.empty two_pixels) = Inr (Scalar NInf)"
    using conjunct1 [OF fields_thm [OF f1]] c1 r1
    by simp
  have b: "fst (u_forward failing_solver sphere_model Map.empty two_pixels None)
             = Inr (Scalar NInf)"
    using conjunct1 [OF conjunct2 [OF forward_thm [OF f2]]] c2 r2
    by simp
  have c: "fst (u_lnlike binary64_range failing_solver sphere_model Map.empty ?E)
             \<noteq> Inl MultisphereFailure"
    using conjunct1 [OF conjunct2 [OF conjunct2 [OF caught_thm [OF f2]]]] c3 r2
    by simp
  have d: "fst (u_lnlike binary64_range failing_solver sphere_model Map.empty two_pixels)
             = Inr NInf"
    using conjunct2 [OF conjunct2 [OF conjunct2 [OF reject_thm [OF f2]]]]
      c3 r2 ieee_range dat nz den norm
    by simp
  have e: "fst (u_lnlike binary64_range failing_solver sphere_model ?P two_pixels) = Inr NInf"
    using conjunct2 [OF conjunct2 [OF conjunct2 [OF reject_thm_P [OF f2]]]]
      c3 r2 ieee_range dat np den norm
    by simp
  have f: "fst (u_lnlike binary64_range failing_solver sphere_model ?Q two_pixels) = Inr NInf"
    using conjunct2 [OF conjunct2 [OF conjunct2 [OF reject_thm_Q [OF f2]]]]
      c3 r2 ieee_range dat nq den norm
    by simp
  from a b c d e f c1 c2 c3 show ?thesis
    by (simp add: prod_eq_iff)
qed

section \<open>Construction\<close>

lemma load_module_defaults:
  "load_module st =
     (\<lparr>NoiseModel_constraints = next_addr st, AlphaModel_constraints = Suc (next_addr st)\<rparr>,
      st\<lparr>lists := (lists st)(next_addr st \<mapsto> [], Suc (next_addr st) \<mapsto> []),
         next_addr := Suc (Suc (next_addr st))\<rparr>)"
  by (simp add: load_module_def new_list_def)

text \<open>
  C9. The claim asks for a constraint list per instance. In the code two models built
  without the \<^verbatim>\<open>constraints\<close> argument hold one and the same list object, the default
  of their constructor: both see it empty at first, and a constraint appended through the
  first is a constraint of the second. This holds for two \<^verbatim>\<open>NoiseModel\<close>s and for two
  \<^verbatim>\<open>AlphaModel\<close>s, from any store the module is loaded in.
\<close>

theorem default_constraints_shared:
  "(case load_module st of
      (dflt, st') \<Rightarrow>
        (let m1 = NoiseModel_init dflt scat1 noise1 thy1 None;
             m2 = NoiseModel_init dflt scat2 noise2 thy2 None
         in obj_constraints m1 = obj_constraints m2 \<and>
            constraints_of st' m1 = Some [] \<and>
            constraints_of st' m2 = Some [] \<and>
            constraints_of (list_append (obj_constraints m1) c st') m2 = Some [c]) \<and>
        (let a1 = AlphaModel_init dflt scat1 noise1 alpha1 thy1 None;
             a2 = AlphaModel_init dflt scat2 noise2 alpha2 thy2 None
         in obj_constraints a1 = obj_constraints a2 \<and>
            constraints_of st' a1 = Some [] \<and>
            constraints_of st' a2 = Some [] \<and>
            constraints_of (list_append (obj_constraints a1) c st') a2 = Some [c]))"
  by (simp add: load_module_defaults NoiseModel_init_def AlphaModel_init_def BaseModel_init_def
      u_use_parameter_def constraints_of_def list_append_def)

end
